theory Spec2Isabelle
  imports Complex_Main "HOL-Library.Product_Lexorder" "HOL-Library.List_Lexorder"
    "HOL-Library.Char_ord" "HOL-Library.Sublist" "HOL-Library.AList"
begin

section \<open>Floating-point values\<close>

text \<open>
  The pipeline computes on pandas columns of IEEE doubles. A value is modelled as a
  finite number, one of the two infinities, or NaN (which pandas also uses for a missing
  value). Finite arithmetic is exact (rounding, overflow to infinity and the sign of
  zero are not modelled); the special values follow IEEE 754, as numpy computes them
  without raising.
\<close>

datatype fval = Fin real | PInf | NInf | NaN

definition is_nan :: "fval \<Rightarrow> bool" where
  "is_nan x = (x = NaN)"

fun is_fin :: "fval \<Rightarrow> bool" where
  "is_fin (Fin r) = True"
| "is_fin x = False"

fun fabs :: "fval \<Rightarrow> fval" where
  "fabs (Fin a) = Fin \<bar>a\<bar>"
| "fabs PInf = PInf"
| "fabs NInf = PInf"
| "fabs NaN = NaN"

fun fneg :: "fval \<Rightarrow> fval" where
  "fneg (Fin a) = Fin (- a)"
| "fneg PInf = NInf"
| "fneg NInf = PInf"
| "fneg NaN = NaN"

fun fadd :: "fval \<Rightarrow> fval \<Rightarrow> fval" where
  "fadd NaN y = NaN"
| "fadd x NaN = NaN"
| "fadd (Fin a) (Fin b) = Fin (a + b)"
| "fadd PInf NInf = NaN"
| "fadd NInf PInf = NaN"
| "fadd PInf y = PInf"
| "fadd NInf y = NInf"
| "fadd (Fin a) y = y"

definition fsub :: "fval \<Rightarrow> fval \<Rightarrow> fval" where
  "fsub x y = fadd x (fneg y)"

text \<open>The infinity carrying the sign of the product of two non-zero signs.\<close>

definition signed_inf :: "bool \<Rightarrow> fval" where
  "signed_inf positive = (if positive then PInf else NInf)"

fun fmul :: "fval \<Rightarrow> fval \<Rightarrow> fval" where
  "fmul NaN y = NaN"
| "fmul x NaN = NaN"
| "fmul (Fin a) (Fin b) = Fin (a * b)"
| "fmul (Fin a) PInf = (if a = 0 then NaN else signed_inf (0 < a))"
| "fmul (Fin a) NInf = (if a = 0 then NaN else signed_inf (a < 0))"
| "fmul PInf (Fin b) = (if b = 0 then NaN else signed_inf (0 < b))"
| "fmul NInf (Fin b) = (if b = 0 then NaN else signed_inf (b < 0))"
| "fmul PInf PInf = PInf"
| "fmul PInf NInf = NInf"
| "fmul NInf PInf = NInf"
| "fmul NInf NInf = PInf"

text \<open>
  Division of float columns never raises: a finite non-zero numerator over zero is an
  infinity of the numerator's sign, zero over zero is NaN.
\<close>

fun fdiv :: "fval \<Rightarrow> fval \<Rightarrow> fval" where
  "fdiv NaN y = NaN"
| "fdiv x NaN = NaN"
| "fdiv (Fin a) (Fin b) =
     (if b = 0 then (if a = 0 then NaN else signed_inf (0 < a)) else Fin (a / b))"
| "fdiv (Fin a) y = Fin 0"
| "fdiv PInf (Fin b) = signed_inf (0 \<le> b)"
| "fdiv NInf (Fin b) = signed_inf (b < 0)"
| "fdiv x y = NaN"

text \<open>Comparisons: every comparison with NaN is false.\<close>

fun flt :: "fval \<Rightarrow> fval \<Rightarrow> bool" where
  "flt NaN y = False"
| "flt x NaN = False"
| "flt (Fin a) (Fin b) = (a < b)"
| "flt x PInf = (x \<noteq> PInf)"
| "flt NInf y = (y \<noteq> NInf)"
| "flt x y = False"

fun fle :: "fval \<Rightarrow> fval \<Rightarrow> bool" where
  "fle NaN y = False"
| "fle x NaN = False"
| "fle x y = (\<not> flt y x)"

text \<open>
  \<open>Series.clip\<close>: values below the lower bound become the bound, values above the
  upper bound become the bound, NaN stays NaN. \<open>Series.fillna\<close> replaces NaN.
\<close>

definition clip_lower :: "fval \<Rightarrow> fval \<Rightarrow> fval" where
  "clip_lower lo x = (if flt x lo then lo else x)"

definition clip_upper :: "fval \<Rightarrow> fval \<Rightarrow> fval" where
  "clip_upper hi x = (if flt hi x then hi else x)"

definition clip :: "fval \<Rightarrow> fval \<Rightarrow> fval \<Rightarrow> fval" where
  "clip lo hi x = clip_upper hi (clip_lower lo x)"

definition fillna :: "fval \<Rightarrow> fval \<Rightarrow> fval" where
  "fillna v x = (if is_nan x then v else x)"

section \<open>Errors\<close>

text \<open>
  The exceptions the pipeline raises, by Python class. The payload of a \<open>ValueError\<close>
  is what its message is formatted from.
\<close>

datatype value_error =
    SeriesAbsent string          \<comment> \<open>"Climatologia/futuro de '{name}' esta ausente (None)."\<close>
  | SeriesLength string nat      \<comment> \<open>"'{name}' deveria ter 12 valores mensais, mas veio com {len(s)}."\<close>
  | NoDateTimeColumn             \<comment> \<open>"CSV ERA5 base precisa ter coluna DateTime." / "CSV sem DateTime."\<close>
  | BadDateTime nat              \<comment> \<open>"Falha ao converter DateTime: {n} linhas invalidas."\<close>
  | MissingColumn string         \<comment> \<open>"Falta coluna {c} no ERA5 base." / "Falta {c}."\<close>
  | NaNFound                     \<comment> \<open>"NaN no ERA5 base." / "NaN apos morph."\<close>
  | RowCount nat                 \<comment> \<open>"... tem {len(df)} linhas (esperado 8760)."\<close>
  | CannotAssemble               \<comment> \<open>\<open>pd.to_datetime\<close>: "cannot assemble the datetimes"\<close>

datatype error =
    ValueError value_error
  | TypeError                    \<comment> \<open>\<open>float(None)\<close>\<close>
  | OverflowError                \<comment> \<open>\<open>float(x)\<close>: "int too large to convert to float"\<close>
  | FileNotFoundError string     \<comment> \<open>a loader found no file; the payload names what was sought\<close>
  | KeyError string              \<comment> \<open>sorting a table that has no such column\<close>
  | OtherError string            \<comment> \<open>any other exception of a loader\<close>

section \<open>Monthly series\<close>

text \<open>
  A pandas Series of floats: its index labels with their values, in order. A monthly
  series has the labels 1..12.
\<close>

type_synonym series = "(nat \<times> fval) list"

definition months :: "nat list" where
  "months = [1..<13]"

text \<open>The argument \<open>x\<close> of \<open>_as_monthly_series\<close>: None, a Python integer (of any
  size), a float, or a sequence of floats (a list, an array or a Series, of which only
  the values are kept).\<close>

datatype pyval = PyNone | PyInt int | PyFloat fval | PySeq "fval list"

text \<open>
  \<open>float(x)\<close> of an integer: it raises when the integer rounds beyond the largest
  double, \<open>2^1024 - 2^971\<close>, that is from \<open>2^1024 - 2^970\<close> on.
\<close>

definition float_of_int :: "int \<Rightarrow> error + fval" where
  "float_of_int i =
     (if \<bar>i\<bar> \<ge> 2 ^ 1024 - 2 ^ 970 then Inl OverflowError else Inr (Fin (of_int i)))"

definition as_monthly_series :: "pyval \<Rightarrow> string \<Rightarrow> bool \<Rightarrow> fval option \<Rightarrow> error + series" where
  "as_monthly_series x name allow_none fill =
     (case x of
        PyNone \<Rightarrow>
          (if allow_none
           then (case fill of
                   None \<Rightarrow> Inl TypeError
                 | Some f \<Rightarrow> Inr (map (\<lambda>m. (m, f)) months))
           else Inl (ValueError (SeriesAbsent name)))
      | PyInt i \<Rightarrow>
          (case float_of_int i of
             Inl e \<Rightarrow> Inl e
           | Inr v \<Rightarrow> Inr (map (\<lambda>m. (m, v)) months))
      | PyFloat v \<Rightarrow> Inr (map (\<lambda>m. (m, v)) months)
      | PySeq vs \<Rightarrow>
          (if length vs \<noteq> 12 then Inl (ValueError (SeriesLength name (length vs)))
           else Inr (zip months vs)))"

text \<open>
  Arithmetic of two Series aligns them on their labels; a label of the left operand
  that the right one lacks gives NaN. (Every pair the pipeline combines has the labels
  1..12 on both sides.)
\<close>

definition series_op :: "(fval \<Rightarrow> fval \<Rightarrow> fval) \<Rightarrow> series \<Rightarrow> series \<Rightarrow> series" where
  "series_op f a b =
     map (\<lambda>(m, x). (m, case map_of b m of None \<Rightarrow> NaN | Some y \<Rightarrow> f x y)) a"

definition series_scale :: "series \<Rightarrow> fval \<Rightarrow> series" where
  "series_scale a c = map (\<lambda>(m, x). (m, fmul x c)) a"

text \<open>\<open>df["month"].map(s.to_dict())\<close> at one row: a month missing in the dict maps to NaN.\<close>

definition month_map :: "series \<Rightarrow> nat \<Rightarrow> fval" where
  "month_map s m = (case map_of s m of None \<Rightarrow> NaN | Some v \<Rightarrow> v)"

section \<open>Scenario resolution\<close>

text \<open>
  The three places that choose between the nominal scenario and "historical":
  \<open>ssp_name\<close> in \<open>load_future_monthly\<close>, \<open>out_subdir\<close> in \<open>morph_one_year\<close> and the
  \<open>"ssp"\<close> entry of a result (and of the name of its log) in \<open>main\<close>.
\<close>

definition ssp_name :: "string \<Rightarrow> int \<Rightarrow> string" where
  "ssp_name ssp year = (if year \<ge> 2015 then ssp else ''historical'')"

definition out_subdir :: "string \<Rightarrow> int \<Rightarrow> string" where
  "out_subdir ssp year = (if year < 2015 then ''historical'' else ssp)"

definition result_ssp :: "string \<Rightarrow> int \<Rightarrow> string" where
  "result_ssp ssp year = (if year < 2015 then ''historical'' else ssp)"

section \<open>Tables\<close>

text \<open>
  A timestamp, to the hour, with what \<open>dt.floor("h")\<close> removes kept apart. A row of
  a SAM weather CSV has the timestamp and the six numeric columns; the reference
  profile carries the extra column \<open>month\<close>.
\<close>

record datetime =
  dt_year :: int
  dt_month :: nat
  dt_day :: nat
  dt_hour :: nat
  dt_subhour :: nat

record sam_row =
  DateTime :: datetime
  GHI :: fval
  DNI :: fval
  DHI :: fval
  TempC :: fval
  WindSpeed :: fval
  RelHum :: fval

record base_row = sam_row +
  month :: nat

text \<open>
  A CSV file as \<open>pd.read_csv\<close>, \<open>pd.to_datetime(errors="coerce")\<close> and
  \<open>pd.to_numeric(errors="coerce")\<close> see it: the column names, and per row the parsed
  timestamp (None where it does not parse) and the six numbers (NaN where a cell is
  empty or not a number). The value of a column the file lacks is never read.
\<close>

record csv_row =
  cDateTime :: "datetime option"
  cGHI :: fval
  cDNI :: fval
  cDHI :: fval
  cTempC :: fval
  cWindSpeed :: fval
  cRelHum :: fval

record csv_table =
  csv_columns :: "string list"
  csv_rows :: "csv_row list"

definition req :: "string list" where
  "req = [''GHI'', ''DNI'', ''DHI'', ''TempC'', ''WindSpeed'', ''RelHum'']"

definition floor_h :: "datetime \<Rightarrow> datetime" where
  "floor_h d = d\<lparr>dt_subhour := 0\<rparr>"

definition dt_key :: "datetime \<Rightarrow> int \<times> nat \<times> nat \<times> nat \<times> nat" where
  "dt_key d = (dt_year d, dt_month d, dt_day d, dt_hour d, dt_subhour d)"

text \<open>
  \<open>ensure_datetime\<close>: fails when a timestamp does not parse, with their number.
\<close>

definition ensure_datetime :: "datetime option list \<Rightarrow> error + datetime list" where
  "ensure_datetime s =
     (if \<exists>d \<in> set s. d = None
      then Inl (ValueError (BadDateTime (length (filter (\<lambda>d. d = None) s))))
      else Inr (map the s))"

definition row_has_nan :: "csv_row \<Rightarrow> bool" where
  "row_has_nan r = (is_nan (cGHI r) \<or> is_nan (cDNI r) \<or> is_nan (cDHI r) \<or>
                    is_nan (cTempC r) \<or> is_nan (cWindSpeed r) \<or> is_nan (cRelHum r))"

definition feb29 :: "datetime \<Rightarrow> bool" where
  "feb29 d = (dt_month d = 2 \<and> dt_day d = 29)"

section \<open>The environment\<close>

text \<open>
  What the pipeline reads from its configuration, from files and from numpy: the pinned
  irradiance scale, numpy's \<open>nanpercentile(., 95)\<close>, the reference CSV, the result
  of each loader of gridded or tabular data (a series, or the exception it raises),
  and the result of the yield simulator on a weather CSV.
\<close>

datatype warning =
    UsingPlanilha string         \<comment> \<open>"[AVISO] Usando climatologia da planilha para '{v}' (1994-2014)."\<close>
  | UsingEra5Wind                \<comment> \<open>"[AVISO] Usando climatologia ERA5 (seus CSVs) para 'sfcWind' (1994-2014)."\<close>
  | FallbackNexWind              \<comment> \<open>"  [Fallback] Tentando NEX historical para 'sfcWind'."\<close>
  | HursClimUnavailable          \<comment> \<open>"[AVISO] Climatologia historica de 'hurs' indisponivel. Delta 0% sera usado."\<close>

record sam_result =
  s_annual_mwh :: fval
  s_capacity_factor :: fval
  s_ac_monthly_kwh :: "fval list"
  s_tempo_s :: fval

record env =
  IRRAD_SCALE :: "fval option"
  nanpercentile95 :: "fval list \<Rightarrow> fval"
  read_csv_era5_base :: "error + csv_table"
  load_nex_hist_monthly :: "string \<Rightarrow> error + series"
  planilha :: "(error + (string \<rightharpoonup> series)) option"
  load_wind_clim_from_era5_csvs :: "error + series"
  load_hurs_hist_monthly_from_dir :: "error + series"
  load_nex_one_year_monthly :: "string \<Rightarrow> int \<Rightarrow> string \<Rightarrow> error + series"
  run_sam_from_csv :: "csv_table \<Rightarrow> error + sam_result"

definition bind_err :: "'e + 'a \<Rightarrow> ('a \<Rightarrow> 'e + 'b) \<Rightarrow> 'e + 'b" where
  "bind_err r f = (case r of Inl e \<Rightarrow> Inl e | Inr v \<Rightarrow> f v)"

section \<open>Reading the reference profile\<close>

definition guess_irr_scale :: "env \<Rightarrow> fval list \<Rightarrow> fval" where
  "guess_irr_scale E ghi =
     (let p95 = (if ghi \<noteq> [] then nanpercentile95 E ghi else NaN)
      in if \<not> is_fin p95 \<or> fle p95 (Fin 0) then Fin 1
         else clip (Fin (1/10)) (Fin 100) (fdiv (Fin 900) p95))"

text \<open>The first required column that the file lacks, in the order of \<open>req\<close>.\<close>

definition first_missing :: "string list \<Rightarrow> string option" where
  "first_missing cols = List.find (\<lambda>c. c \<notin> set cols) req"

definition remove_feb29 :: "('a \<Rightarrow> datetime) \<Rightarrow> 'a list \<Rightarrow> 'a list" where
  "remove_feb29 dt df = (if length df = 8784 then filter (\<lambda>r. \<not> feb29 (dt r)) df else df)"

definition to_base_row :: "fval \<Rightarrow> bool \<Rightarrow> csv_row \<Rightarrow> base_row" where
  "to_base_row scale rescale r =
     (let d = floor_h (the (cDateTime r));
          sc = (\<lambda>v. if rescale then fmul v scale else v)
      in \<lparr>DateTime = d, GHI = sc (cGHI r), DNI = sc (cDNI r), DHI = sc (cDHI r),
          TempC = cTempC r, WindSpeed = cWindSpeed r, RelHum = cRelHum r,
          month = dt_month d\<rparr>)"

definition read_era5_base :: "env \<Rightarrow> error + base_row list" where
  "read_era5_base E =
     bind_err (read_csv_era5_base E) (\<lambda>t.
       if ''DateTime'' \<notin> set (csv_columns t) then Inl (ValueError NoDateTimeColumn)
       else bind_err (ensure_datetime (map cDateTime (csv_rows t))) (\<lambda>_.
         let df = sort_key (\<lambda>r. dt_key (floor_h (the (cDateTime r)))) (csv_rows t)
         in case first_missing (csv_columns t) of
              Some c \<Rightarrow> Inl (ValueError (MissingColumn c))
            | None \<Rightarrow>
                if \<exists>r \<in> set df. row_has_nan r then Inl (ValueError NaNFound)
                else
                  let scale = (case IRRAD_SCALE E of
                                 None \<Rightarrow> guess_irr_scale E (map cGHI df)
                               | Some s \<Rightarrow> s);
                      rescale = flt (Fin (1 / 10^6)) (fabs (fsub scale (Fin 1)));
                      df1 = map (to_base_row scale rescale) df;
                      df2 = remove_feb29 DateTime df1
                  in if length df2 \<noteq> 8760 then Inl (ValueError (RowCount (length df2)))
                     else Inr df2))"

section \<open>Validating a morphed CSV\<close>

definition validate_sam_csv :: "csv_table \<Rightarrow> error + unit" where
  "validate_sam_csv t =
     (if ''DateTime'' \<notin> set (csv_columns t) then Inl (ValueError NoDateTimeColumn)
      else bind_err (ensure_datetime (map cDateTime (csv_rows t))) (\<lambda>dts.
        case first_missing (csv_columns t) of
          Some c \<Rightarrow> Inl (ValueError (MissingColumn c))
        | None \<Rightarrow>
            if \<exists>r \<in> set (csv_rows t). row_has_nan r then Inl (ValueError NaNFound)
            else
              let df = remove_feb29 id dts
              in if length df \<noteq> 8760 then Inl (ValueError (RowCount (length df)))
                 else Inr ()))"

section \<open>Loading the climatologies and the projection\<close>

text \<open>
  \<open>load_hist_clims\<close>: the dict of climatologies with the warnings it prints. An
  exception raised while handling one (the spreadsheet loader failing) propagates; a
  variable still missing after its fallback re-raises the first exception.
\<close>

definition load_clim_nex_or_planilha ::
  "env \<Rightarrow> string \<Rightarrow> warning list \<times> (string \<rightharpoonup> series) \<Rightarrow>
     error + (warning list \<times> (string \<rightharpoonup> series))" where
  "load_clim_nex_or_planilha E v acc =
     (case acc of (w, clim) \<Rightarrow>
        (case load_nex_hist_monthly E v of
           Inr s \<Rightarrow> Inr (w, clim(v \<mapsto> s))
         | Inl e \<Rightarrow>
             (case planilha E of
                None \<Rightarrow> Inl e
              | Some (Inl e') \<Rightarrow> Inl e'
              | Some (Inr plan) \<Rightarrow>
                  (case plan v of
                     None \<Rightarrow> Inl e
                   | Some s \<Rightarrow>
                       if length s = 12 then Inr (w @ [UsingPlanilha v], clim(v \<mapsto> s))
                       else Inl e))))"

definition load_hist_clims :: "env \<Rightarrow> error + (warning list \<times> (string \<rightharpoonup> series))" where
  "load_hist_clims E =
     bind_err (load_clim_nex_or_planilha E ''rsds'' ([], Map.empty)) (\<lambda>a1.
     bind_err (load_clim_nex_or_planilha E ''tas'' a1) (\<lambda>(w, clim).
     bind_err
       (case load_wind_clim_from_era5_csvs E of
          Inr s \<Rightarrow> Inr (w @ [UsingEra5Wind], clim(''sfcWind'' \<mapsto> s))
        | Inl _ \<Rightarrow>
            bind_err (load_nex_hist_monthly E ''sfcWind'') (\<lambda>s.
              Inr (w @ [UsingEra5Wind, FallbackNexWind], clim(''sfcWind'' \<mapsto> s))))
       (\<lambda>(w, clim).
          case load_hurs_hist_monthly_from_dir E of
            Inr s \<Rightarrow> Inr (w, clim(''hurs'' \<mapsto> s))
          | Inl _ \<Rightarrow> Inr (w @ [HursClimUnavailable], clim))))"

definition VARS :: "string list" where
  "VARS = [''rsds'', ''tas'', ''sfcWind'', ''hurs'']"

text \<open>
  \<open>load_future_monthly\<close>: a variable that fails to load aborts, except \<open>hurs\<close>, whose
  entry is then None (the same to \<open>fut.get\<close> as no entry).
\<close>

fun load_future_vars ::
  "env \<Rightarrow> string \<Rightarrow> int \<Rightarrow> string list \<Rightarrow> (string \<rightharpoonup> series) \<Rightarrow> error + (string \<rightharpoonup> series)" where
  "load_future_vars E sn yr [] fut = Inr fut"
| "load_future_vars E sn yr (v # vs) fut =
     (case load_nex_one_year_monthly E v yr sn of
        Inr s \<Rightarrow> load_future_vars E sn yr vs (fut(v \<mapsto> s))
      | Inl e \<Rightarrow>
          if v = ''hurs'' then load_future_vars E sn yr vs (fut(v := None))
          else Inl e)"

definition load_future_monthly :: "env \<Rightarrow> string \<Rightarrow> int \<Rightarrow> error + (string \<rightharpoonup> series)" where
  "load_future_monthly E ssp yr = load_future_vars E (ssp_name ssp yr) yr VARS Map.empty"

section \<open>The morph\<close>

text \<open>\<open>d.get(k)\<close> as the argument of \<open>_as_monthly_series\<close>.\<close>

definition get_series :: "(string \<rightharpoonup> series) \<Rightarrow> string \<Rightarrow> pyval" where
  "get_series d k = (case d k of None \<Rightarrow> PyNone | Some s \<Rightarrow> PySeq (map snd s))"

text \<open>
  The humidity pair \<open>(fut_hurs, clim_hurs)\<close>. Without a projection the projection is
  the zero series and the climatology is \<open>clim.get("hurs", fut_hurs*0.0)\<close>; with a
  projection both are required.
\<close>

definition hurs_series ::
  "(string \<rightharpoonup> series) \<Rightarrow> (string \<rightharpoonup> series) \<Rightarrow> error + (series \<times> series)" where
  "hurs_series clim fut =
     (if fut ''hurs'' = None
      then bind_err (as_monthly_series PyNone ''fut.hurs'' True (Some (Fin 0))) (\<lambda>fut_hurs.
           bind_err (as_monthly_series
                       (case clim ''hurs'' of
                          None \<Rightarrow> PySeq (map snd (series_scale fut_hurs (Fin 0)))
                        | Some s \<Rightarrow> PySeq (map snd s))
                       ''clim.hurs'' True (Some (Fin 0))) (\<lambda>clim_hurs.
           Inr (fut_hurs, clim_hurs)))
      else bind_err (as_monthly_series (get_series fut ''hurs'') ''fut.hurs'' False None) (\<lambda>fut_hurs.
           bind_err (as_monthly_series (get_series clim ''hurs'') ''clim.hurs'' False None) (\<lambda>clim_hurs.
           Inr (fut_hurs, clim_hurs))))"

text \<open>The four monthly adjustments: two factors and two offsets.\<close>

record deltas =
  k_rsds :: series
  d_tas :: series
  k_wspd :: series
  d_hurs :: series

definition eps :: fval where
  "eps = Fin (1 / 10^6)"

text \<open>
  One row of the column assignments of \<open>morph_one_year\<close>, in their order: \<open>GHI\<close> is
  overwritten first, and the fraction \<open>frac_dni\<close> is then computed from the row's
  \<open>DNI\<close> and the new \<open>GHI\<close>.
\<close>

definition morph_row :: "deltas \<Rightarrow> base_row \<Rightarrow> base_row" where
  "morph_row D r =
     (let ghi = clip_lower (Fin 0) (fmul (GHI r) (month_map (k_rsds D) (month r)));
          frac_dni = fillna (Fin 0) (clip (Fin 0) (Fin 1) (fdiv (DNI r) (fadd ghi eps)));
          frac_dhi = clip (Fin 0) (Fin 1) (fsub (Fin 1) frac_dni)
      in r\<lparr>GHI := ghi,
            DNI := fmul ghi frac_dni,
            DHI := fmul ghi frac_dhi,
            TempC := fadd (TempC r) (month_map (d_tas D) (month r)),
            WindSpeed := clip_lower (Fin 0) (fmul (WindSpeed r) (month_map (k_wspd D) (month r))),
            RelHum := clip (Fin 0) (Fin 100) (fadd (RelHum r) (month_map (d_hurs D) (month r)))\<rparr>)"

text \<open>The fractions that \<open>morph_row\<close> uses for a row.\<close>

definition frac_dni :: "deltas \<Rightarrow> base_row \<Rightarrow> fval" where
  "frac_dni D r =
     fillna (Fin 0) (clip (Fin 0) (Fin 1) (fdiv (DNI r) (fadd (GHI (morph_row D r)) eps)))"

definition frac_dhi :: "deltas \<Rightarrow> base_row \<Rightarrow> fval" where
  "frac_dhi D r = clip (Fin 0) (Fin 1) (fsub (Fin 1) (frac_dni D r))"

text \<open>
  Re-stamping to the target year: \<open>pd.to_datetime\<close> assembles year, month, day and
  hour, and raises when some row is not a date of that year (29 February in a
  common year).
\<close>

definition leap_year :: "int \<Rightarrow> bool" where
  "leap_year y = (y mod 4 = 0 \<and> (y mod 100 \<noteq> 0 \<or> y mod 400 = 0))"

definition days_in_month :: "int \<Rightarrow> nat \<Rightarrow> nat" where
  "days_in_month y m =
     (if m = 2 then (if leap_year y then 29 else 28)
      else if m \<in> {4, 6, 9, 11} then 30 else 31)"

definition assemblable :: "int \<Rightarrow> datetime \<Rightarrow> bool" where
  "assemblable y d =
     (1 \<le> dt_month d \<and> dt_month d \<le> 12 \<and> 1 \<le> dt_day d \<and>
      dt_day d \<le> days_in_month y (dt_month d) \<and> dt_hour d < 24)"

definition restamp :: "int \<Rightarrow> datetime \<Rightarrow> datetime" where
  "restamp y d = \<lparr>dt_year = y, dt_month = dt_month d, dt_day = dt_day d,
                  dt_hour = dt_hour d, dt_subhour = 0\<rparr>"

definition to_sam_row :: "int \<Rightarrow> base_row \<Rightarrow> sam_row" where
  "to_sam_row y r =
     \<lparr>DateTime = restamp y (DateTime r), GHI = GHI r, DNI = DNI r, DHI = DHI r,
      TempC = TempC r, WindSpeed = WindSpeed r, RelHum = RelHum r\<rparr>"

text \<open>The part of \<open>morph_one_year\<close> after the adjustments are known.\<close>

definition apply_morph :: "deltas \<Rightarrow> int \<Rightarrow> base_row list \<Rightarrow> error + sam_row list" where
  "apply_morph D yr base =
     (let df = map (morph_row D) base
      in if \<exists>r \<in> set df. \<not> assemblable yr (DateTime r) then Inl (ValueError CannotAssemble)
         else Inr (map (to_sam_row yr) df))"

text \<open>
  The monthly adjustments, from the climatologies and the projection of the target.
\<close>

definition monthly_deltas ::
  "(string \<rightharpoonup> series) \<Rightarrow> (string \<rightharpoonup> series) \<Rightarrow> error + deltas" where
  "monthly_deltas clim fut =
     bind_err (as_monthly_series (get_series clim ''rsds'') ''clim.rsds'' False None) (\<lambda>clim_rsds.
     bind_err (as_monthly_series (get_series clim ''tas'') ''clim.tas'' False None) (\<lambda>clim_tas.
     bind_err (as_monthly_series (get_series clim ''sfcWind'') ''clim.sfcWind'' False None) (\<lambda>clim_wspd.
     bind_err (as_monthly_series (get_series fut ''rsds'') ''fut.rsds'' False None) (\<lambda>fut_rsds.
     bind_err (as_monthly_series (get_series fut ''tas'') ''fut.tas'' False None) (\<lambda>fut_tas.
     bind_err (as_monthly_series (get_series fut ''sfcWind'') ''fut.sfcWind'' False None) (\<lambda>fut_wspd.
     bind_err (hurs_series clim fut) (\<lambda>(fut_hurs, clim_hurs).
       Inr \<lparr>k_rsds = series_op fdiv fut_rsds clim_rsds,
            d_tas = series_op fsub fut_tas clim_tas,
            k_wspd = series_op fdiv fut_wspd clim_wspd,
            d_hurs = series_op fsub fut_hurs clim_hurs\<rparr>)))))))"

text \<open>
  The written file: its directory under the output root, the year in its name
  (\<open>SAM_{MODEL}_{out_subdir}_{year}_morph.csv\<close>) and its rows, with the warnings printed
  on the way.
\<close>

record morphed =
  m_subdir :: string
  m_year :: int
  m_rows :: "sam_row list"
  m_printed :: "warning list"

definition morph_one_year :: "env \<Rightarrow> string \<Rightarrow> int \<Rightarrow> error + morphed" where
  "morph_one_year E ssp yr =
     bind_err (read_era5_base E) (\<lambda>base.
     bind_err (load_hist_clims E) (\<lambda>(w, clim).
     bind_err (load_future_monthly E ssp yr) (\<lambda>fut.
     bind_err (monthly_deltas clim fut) (\<lambda>D.
     bind_err (apply_morph D yr base) (\<lambda>rows.
       Inr \<lparr>m_subdir = out_subdir ssp yr, m_year = yr, m_rows = rows, m_printed = w\<rparr>)))))"

text \<open>The file as \<open>validate_sam_csv\<close> reads it back.\<close>

definition to_csv :: "sam_row list \<Rightarrow> csv_table" where
  "to_csv rows =
     \<lparr>csv_columns = ''DateTime'' # req,
      csv_rows = map (\<lambda>r. \<lparr>cDateTime = Some (DateTime r), cGHI = GHI r, cDNI = DNI r,
                            cDHI = DHI r, cTempC = TempC r, cWindSpeed = WindSpeed r,
                            cRelHum = RelHum r\<rparr>) rows\<rparr>"

section \<open>The run over scenarios and years\<close>

definition MODEL_NAME :: string where
  "MODEL_NAME = ''ACCESS-CM2''"

definition SCENARIOS :: "string list" where
  "SCENARIOS = [''ssp245'', ''ssp585'']"

definition YEARS :: "int list" where
  "YEARS = [1994..2054]"

text \<open>
  The entry of \<open>results\<close> for one target, with the scenario and the year in the name
  of the log written for it (\<open>log_{ssp}_{year}.txt\<close>). A failure of the morph or of
  the validation, and a failure of the simulator, are recorded with their exception.
\<close>

datatype run_error =
    MorphFailed error            \<comment> \<open>\<open>str(e)\<close>\<close>
  | SamFailed error              \<comment> \<open>"SAM falhou: {e}"\<close>

record result =
  r_modelo :: string
  r_ssp :: string
  r_ano :: int
  r_sam :: "sam_result option"
  r_erro :: "run_error option"
  r_log :: "string \<times> int"

definition run_target :: "env \<Rightarrow> string \<Rightarrow> int \<Rightarrow> result" where
  "run_target E ssp yr =
     (case bind_err (morph_one_year E ssp yr) (\<lambda>M.
             bind_err (validate_sam_csv (to_csv (m_rows M))) (\<lambda>_. Inr M)) of
        Inr M \<Rightarrow>
          (case run_sam_from_csv E (to_csv (m_rows M)) of
             Inr res \<Rightarrow>
               \<lparr>r_modelo = MODEL_NAME, r_ssp = result_ssp ssp yr, r_ano = yr,
                r_sam = Some res, r_erro = None, r_log = (result_ssp ssp yr, yr)\<rparr>
           | Inl e \<Rightarrow>
               \<lparr>r_modelo = MODEL_NAME, r_ssp = result_ssp ssp yr, r_ano = yr,
                r_sam = None, r_erro = Some (SamFailed e), r_log = (result_ssp ssp yr, yr)\<rparr>)
      | Inl e \<Rightarrow>
          \<lparr>r_modelo = MODEL_NAME, r_ssp = result_ssp ssp yr, r_ano = yr,
           r_sam = None, r_erro = Some (MorphFailed e), r_log = (result_ssp ssp yr, yr)\<rparr>)"

text \<open>
  \<open>main\<close>: every scenario and year in turn; a year before 2015 is run under the
  first scenario only.
\<close>

definition main :: "env \<Rightarrow> result list" where
  "main E =
     concat (map (\<lambda>ssp.
       List.map_filter (\<lambda>yr. if yr < 2015 \<and> ssp \<noteq> hd SCENARIOS then None
                               else Some (run_target E ssp yr)) YEARS) SCENARIOS)"

section \<open>Consolidating the logs\<close>


























section \<open>Example data\<close>

text \<open>
  An hour of the reference profile with global irradiance 500, direct 300 and diffuse
  200; the identity adjustments; and the adjustments whose only change is a radiation
  factor of 1.1 in January.
\<close>

definition ref_hour :: base_row where
  "ref_hour = \<lparr>DateTime = \<lparr>dt_year = 2019, dt_month = 1, dt_day = 1, dt_hour = 12, dt_subhour = 0\<rparr>,
               GHI = Fin 500, DNI = Fin 300, DHI = Fin 200, TempC = Fin 25,
               WindSpeed = Fin 3, RelHum = Fin 70, month = 1\<rparr>"

definition const_series :: "fval \<Rightarrow> series" where
  "const_series v = map (\<lambda>m. (m, v)) months"

definition identity_deltas :: deltas where
  "identity_deltas = \<lparr>k_rsds = const_series (Fin 1), d_tas = const_series (Fin 0),
                       k_wspd = const_series (Fin 1), d_hurs = const_series (Fin 0)\<rparr>"

definition january_deltas :: deltas where
  "january_deltas = identity_deltas\<lparr>k_rsds := (1, Fin (11/10)) # tl (const_series (Fin 1))\<rparr>"

text \<open>
  Climatologies and a projection with all four variables, a radiation climatology
  whose January value is 0, and a humidity projection whose January value is missing
  (NaN).
\<close>

definition clim_ok :: "string \<rightharpoonup> series" where
  "clim_ok = [''rsds'' \<mapsto> const_series (Fin 200), ''tas'' \<mapsto> const_series (Fin 25),
              ''sfcWind'' \<mapsto> const_series (Fin 4), ''hurs'' \<mapsto> const_series (Fin 70)]"

definition fut_ok :: "string \<rightharpoonup> series" where
  "fut_ok = [''rsds'' \<mapsto> const_series (Fin 210), ''tas'' \<mapsto> const_series (Fin 26),
             ''sfcWind'' \<mapsto> const_series (Fin 5), ''hurs'' \<mapsto> const_series (Fin 72)]"

definition january_zero :: series where
  "january_zero = (1, Fin 0) # tl (const_series (Fin 200))"

definition january_nan :: series where
  "january_nan = (1, NaN) # tl (const_series (Fin 72))"

text \<open>
  A reference CSV of a leap year (8760 rows and the 24 rows of 29 February), one of 100
  rows, and an environment that serves a given CSV, the series above, given
  results of the two humidity loaders, and a fixed result of the simulator.
\<close>

definition csv_hour :: "nat \<Rightarrow> nat \<Rightarrow> csv_row" where
  "csv_hour m d = \<lparr>cDateTime = Some \<lparr>dt_year = 2020, dt_month = m, dt_day = d, dt_hour = 12,
                                       dt_subhour = 0\<rparr>,
                   cGHI = Fin 500, cDNI = Fin 300, cDHI = Fin 200, cTempC = Fin 25,
                   cWindSpeed = Fin 3, cRelHum = Fin 70\<rparr>"

definition leap_csv :: csv_table where
  "leap_csv = \<lparr>csv_columns = ''DateTime'' # req,
               csv_rows = replicate 8760 (csv_hour 1 1) @ replicate 24 (csv_hour 2 29)\<rparr>"


definition example_env :: "csv_table \<Rightarrow> (error + series) \<Rightarrow> (error + series) \<Rightarrow> env" where
  "example_env t clim_hurs fut_hurs =
     \<lparr>IRRAD_SCALE = Some (Fin 1), nanpercentile95 = (\<lambda>_. Fin 900),
      read_csv_era5_base = Inr t,
      load_nex_hist_monthly = (\<lambda>v. case clim_ok v of None \<Rightarrow> Inl (FileNotFoundError v)
                                                  | Some s \<Rightarrow> Inr s),
      planilha = None,
      load_wind_clim_from_era5_csvs = Inr (const_series (Fin 4)),
      load_hurs_hist_monthly_from_dir = clim_hurs,
      load_nex_one_year_monthly =
        (\<lambda>v y s. if v = ''hurs'' then fut_hurs
                  else case fut_ok v of None \<Rightarrow> Inl (FileNotFoundError v) | Some s \<Rightarrow> Inr s),
      run_sam_from_csv =
        (\<lambda>t. Inr \<lparr>s_annual_mwh = Fin 1700, s_capacity_factor = Fin (1/5),
                    s_ac_monthly_kwh = replicate 12 (Fin 141000), s_tempo_s = Fin 1\<rparr>)\<rparr>"


section \<open>Basic facts\<close>

lemma months_simp: "months = [1,2,3,4,5,6,7,8,9,10,11,12]"
  by (simp add: months_def upt_rec)

lemma fadd_zero_right: "fadd x (Fin 0) = x"
  by (cases x) simp_all

lemma fdiv_by_zero_not_finite: "\<not> is_fin (fdiv x (Fin 0))"
  by (cases x) (simp_all add: signed_inf_def)

lemma morph_row_sel:
  "GHI (morph_row D r) = clip_lower (Fin 0) (fmul (GHI r) (month_map (k_rsds D) (month r)))"
  "DNI (morph_row D r) = fmul (GHI (morph_row D r)) (frac_dni D r)"
  "DHI (morph_row D r) = fmul (GHI (morph_row D r)) (frac_dhi D r)"
  "TempC (morph_row D r) = fadd (TempC r) (month_map (d_tas D) (month r))"
  "WindSpeed (morph_row D r) = clip_lower (Fin 0) (fmul (WindSpeed r) (month_map (k_wspd D) (month r)))"
  "RelHum (morph_row D r) = clip (Fin 0) (Fin 100) (fadd (RelHum r) (month_map (d_hurs D) (month r)))"
  "DateTime (morph_row D r) = DateTime r"
  "month (morph_row D r) = month r"
  by (simp_all add: morph_row_def frac_dni_def frac_dhi_def Let_def)

lemma clip_lower_zero_cases:
  "clip_lower (Fin 0) x = NaN \<or> clip_lower (Fin 0) x = PInf \<or> (\<exists>g\<ge>0. clip_lower (Fin 0) x = Fin g)"
  by (cases x) (auto simp: clip_lower_def)

lemma clip_lower_zero_not_negative: "\<not> flt (clip_lower (Fin 0) x) (Fin 0)"
  by (cases x) (simp_all add: clip_lower_def)

lemma clip_lower_zero_number:
  "\<not> is_nan (clip_lower (Fin 0) x) \<Longrightarrow> fle (Fin 0) (clip_lower (Fin 0) x)"
  by (cases x) (simp_all add: clip_lower_def is_nan_def)

lemma clip_percent_cases:
  "clip (Fin 0) (Fin 100) x = NaN \<or> (\<exists>h. clip (Fin 0) (Fin 100) x = Fin h \<and> 0 \<le> h \<and> h \<le> 100)"
  by (cases x) (auto simp: clip_def clip_lower_def clip_upper_def)





lemma frac_dni_of_infinite_ghi:
  "GHI (morph_row D r) = PInf \<Longrightarrow> frac_dni D r = Fin 0"
  by (cases "DNI r")
     (simp_all add: frac_dni_def eps_def fillna_def clip_def clip_lower_def clip_upper_def is_nan_def)

lemmas eval_series =
  monthly_deltas_def hurs_series_def as_monthly_series_def get_series_def bind_err_def
  series_op_def series_scale_def const_series_def months_simp month_map_def fsub_def
  signed_inf_def

subsection \<open>The index of a monthly series\<close>


lemma as_monthly_series_seq:
  "length vs = 12 \<Longrightarrow> as_monthly_series (PySeq vs) name an fill = Inr (zip months vs)"
  by (simp add: as_monthly_series_def)




lemma map_of_keyed_map:
  "map_of (map (\<lambda>(m, x). (m, h m x)) a) k = map_option (h k) (map_of a k)"
  by (induction a) auto

lemma map_of_zip_months:
  assumes "length vs = 12" "i < 12"
  shows "map_of (zip months vs) (Suc i) = Some (vs ! i)"
proof -
  have "map_of (zip months vs) (months ! i) = Some (vs ! i)"
    using assms by (intro map_of_zip_nth) (simp_all add: months_def)
  moreover have "months ! i = Suc i"
    using assms(2) by (simp add: months_def)
  ultimately show ?thesis by simp
qed

lemma month_map_series_op:
  assumes "length a = 12" "length b = 12" "i < 12"
  shows "month_map (series_op f (zip months a) (zip months b)) (Suc i) = f (a ! i) (b ! i)"
  using assms
  by (simp add: month_map_def series_op_def map_of_keyed_map map_of_zip_months)

lemma hurs_series_total:
  assumes "clim ''hurs'' = Some ch" "length ch = 12" "fut ''hurs'' = Some fh" "length fh = 12"
  shows "hurs_series clim fut = Inr (zip months (map snd fh), zip months (map snd ch))"
  using assms by (simp add: hurs_series_def get_series_def as_monthly_series_seq bind_err_def)

subsection \<open>Dropping 29 February\<close>




lemma feb29_floor_h [simp]: "feb29 (floor_h d) = feb29 d"
  by (simp add: feb29_def floor_h_def)

lemma DateTime_to_base_row [simp]:
  "DateTime (to_base_row scale rescale r) = floor_h (the (cDateTime r))"
  by (simp add: to_base_row_def Let_def)






subsection \<open>The example environment\<close>

lemma example_env_sel:
  "IRRAD_SCALE (example_env t c f) = Some (Fin 1)"
  "read_csv_era5_base (example_env t c f) = Inr t"
  "load_nex_hist_monthly (example_env t c f) =
     (\<lambda>v. case clim_ok v of None \<Rightarrow> Inl (FileNotFoundError v) | Some s \<Rightarrow> Inr s)"
  "planilha (example_env t c f) = None"
  "load_wind_clim_from_era5_csvs (example_env t c f) = Inr (const_series (Fin 4))"
  "load_hurs_hist_monthly_from_dir (example_env t c f) = c"
  "load_nex_one_year_monthly (example_env t c f) =
     (\<lambda>v y s. if v = ''hurs'' then f
               else case fut_ok v of None \<Rightarrow> Inl (FileNotFoundError v) | Some s \<Rightarrow> Inr s)"
  by (simp_all add: example_env_def)

lemma read_leap_csv:
  "read_era5_base (example_env leap_csv c f) =
     Inr (replicate 8760 (ref_hour\<lparr>DateTime := \<lparr>dt_year = 2020, dt_month = 1, dt_day = 1,
                                               dt_hour = 12, dt_subhour = 0\<rparr>\<rparr>))"
proof -
  have s: "sorted (map (\<lambda>r. dt_key (floor_h (the (cDateTime r)))) (csv_rows leap_csv))"
    by (simp add: leap_csv_def sorted_append csv_hour_def dt_key_def floor_h_def
        less_eq_prod_def)
  show ?thesis
    unfolding read_era5_base_def
    by (simp add: example_env_sel bind_err_def sort_key_id_if_sorted [OF s])
       (simp add: example_env_sel leap_csv_def ensure_datetime_def first_missing_def
        req_def row_has_nan_def is_nan_def csv_hour_def Let_def fsub_def remove_feb29_def
        to_base_row_def feb29_def floor_h_def ref_hour_def)
qed


lemma clims_without_hurs:
  "load_hist_clims (example_env t (Inl e) f) =
     Inr ([UsingEra5Wind, HursClimUnavailable], clim_ok(''hurs'' := None))"
  by (simp add: load_hist_clims_def load_clim_nex_or_planilha_def example_env_sel bind_err_def
      clim_ok_def fun_eq_iff)

lemma clims_with_hurs:
  "load_hist_clims (example_env t (Inr (const_series (Fin 70))) f) = Inr ([UsingEra5Wind], clim_ok)"
  by (simp add: load_hist_clims_def load_clim_nex_or_planilha_def example_env_sel bind_err_def
      clim_ok_def fun_eq_iff)

lemma future_without_hurs:
  "load_future_monthly (example_env t c (Inl e)) ssp yr = Inr (fut_ok(''hurs'' := None))"
  by (simp add: load_future_monthly_def VARS_def example_env_sel fut_ok_def fun_eq_iff)

lemma future_with_hurs:
  "load_future_monthly (example_env t c (Inr (const_series (Fin 72)))) ssp yr = Inr fut_ok"
  by (simp add: load_future_monthly_def VARS_def example_env_sel fut_ok_def fun_eq_iff)

section \<open>The direct and diffuse components\<close>

text \<open>
  C1. The claim: the direct fraction is computed from the reference record and carried
  over unchanged, so that a reference hour with global 500, direct 300, diffuse 200 and a
  radiation factor of 1.1 is morphed to global 550, direct 330, diffuse 220. The code
  divides the reference direct-normal by the already rescaled global irradiance: at
  that hour the fraction is 300 / (550 + 1e-6) and not 300 / 500, the morphed direct
  value is 550 * 300 / (550 + 1e-6) (just below 300) and not 330, and the diffuse value
  is what remains of 550, not 220.
\<close>

theorem direct_fraction_from_new_global:
  "GHI (morph_row january_deltas ref_hour) = Fin 550
   \<and> frac_dni january_deltas ref_hour = Fin (300 / (550 + 1 / 10^6))
   \<and> frac_dni january_deltas ref_hour \<noteq> Fin (300 / 500)
   \<and> DNI (morph_row january_deltas ref_hour) = Fin (550 * (300 / (550 + 1 / 10^6)))
   \<and> DNI (morph_row january_deltas ref_hour) \<noteq> Fin 330
   \<and> DHI (morph_row january_deltas ref_hour) = Fin (550 * (1 - 300 / (550 + 1 / 10^6)))
   \<and> DHI (morph_row january_deltas ref_hour) \<noteq> Fin 220"
  by (simp add: morph_row_def frac_dni_def Let_def january_deltas_def identity_deltas_def
      const_series_def months_simp ref_hour_def month_map_def clip_lower_def clip_def
      clip_upper_def fillna_def is_nan_def eps_def fsub_def)




section \<open>Identity adjustments\<close>

text \<open>
  C2, as claimed: morphing with factors 1 and offsets 0 reproduces every field of every
  record. It does not: the direct-normal value of the example hour changes from 300 to
  500 * 300 / (500 + 1e-6), because the fraction is taken over the global irradiance
  plus the guard 1e-6.
\<close>

theorem identity_deltas_change_direct:
  "morph_row identity_deltas ref_hour \<noteq> ref_hour
   \<and> DNI (morph_row identity_deltas ref_hour) = Fin (500 * (300 / (500 + 1 / 10^6)))
   \<and> DNI (morph_row identity_deltas ref_hour) \<noteq> DNI ref_hour"
proof -
  have d: "DNI (morph_row identity_deltas ref_hour) = Fin (500 * (300 / (500 + 1 / 10^6)))"
    by (simp add: morph_row_def frac_dni_def Let_def identity_deltas_def
      const_series_def months_simp ref_hour_def month_map_def clip_lower_def clip_def
      clip_upper_def fillna_def is_nan_def eps_def fsub_def)
  have r: "DNI ref_hour = Fin 300" by (simp add: ref_hour_def)
  have ne: "DNI (morph_row identity_deltas ref_hour) \<noteq> DNI ref_hour"
    unfolding d r by simp
  then have "morph_row identity_deltas ref_hour \<noteq> ref_hour" by auto
  with d ne show ?thesis by simp
qed

lemma morph_row_identity:
  assumes "month_map (k_rsds D) (month r) = Fin 1" "month_map (d_tas D) (month r) = Fin 0"
    "month_map (k_wspd D) (month r) = Fin 1" "month_map (d_hurs D) (month r) = Fin 0"
    "GHI r = Fin g" "0 \<le> g" "WindSpeed r = Fin w" "0 \<le> w" "RelHum r = Fin h" "0 \<le> h" "h \<le> 100"
  shows "morph_row D r =
           r\<lparr>DNI := fmul (GHI r) (fillna (Fin 0) (clip (Fin 0) (Fin 1) (fdiv (DNI r) (fadd (GHI r) eps)))),
             DHI := fmul (GHI r) (clip (Fin 0) (Fin 1) (fsub (Fin 1)
                      (fillna (Fin 0) (clip (Fin 0) (Fin 1) (fdiv (DNI r) (fadd (GHI r) eps))))))\<rparr>"
  using assms
  by (simp add: morph_row_def Let_def fadd_zero_right clip_lower_def clip_def clip_upper_def)

text \<open>
  C2, amended. With factors 1 and offsets 0 for every month, a profile whose records
  have a month in 1..12, a date of the target year, finite non-negative global
  irradiance and wind speed and a relative humidity within [0, 100] is morphed
  without error, and every record keeps its global irradiance, temperature, wind
  speed, relative humidity, month, day and hour; its year becomes the target year, and
  its direct and diffuse values are recomputed as the global irradiance times
  f and times 1 - f, where f is direct / (global + 1e-6) clipped to [0, 1].
\<close>

theorem identity_deltas_keep_totals:
  assumes "\<forall>m \<in> set months. month_map (k_rsds D) m = Fin 1 \<and> month_map (d_tas D) m = Fin 0
             \<and> month_map (k_wspd D) m = Fin 1 \<and> month_map (d_hurs D) m = Fin 0"
    and "\<forall>r \<in> set base. month r \<in> set months \<and> assemblable yr (DateTime r)
             \<and> (\<exists>g\<ge>0. GHI r = Fin g) \<and> (\<exists>w\<ge>0. WindSpeed r = Fin w)
             \<and> (\<exists>h. RelHum r = Fin h \<and> 0 \<le> h \<and> h \<le> 100)"
  shows "apply_morph D yr base =
           Inr (map (\<lambda>r. \<lparr>DateTime = restamp yr (DateTime r),
                           GHI = GHI r,
                           DNI = fmul (GHI r) (fillna (Fin 0) (clip (Fin 0) (Fin 1)
                                   (fdiv (DNI r) (fadd (GHI r) eps)))),
                           DHI = fmul (GHI r) (clip (Fin 0) (Fin 1) (fsub (Fin 1)
                                   (fillna (Fin 0) (clip (Fin 0) (Fin 1)
                                     (fdiv (DNI r) (fadd (GHI r) eps)))))),
                           TempC = TempC r, WindSpeed = WindSpeed r, RelHum = RelHum r\<rparr>) base)"
proof -
  have row: "morph_row D r =
           r\<lparr>DNI := fmul (GHI r) (fillna (Fin 0) (clip (Fin 0) (Fin 1) (fdiv (DNI r) (fadd (GHI r) eps)))),
             DHI := fmul (GHI r) (clip (Fin 0) (Fin 1) (fsub (Fin 1)
                      (fillna (Fin 0) (clip (Fin 0) (Fin 1) (fdiv (DNI r) (fadd (GHI r) eps))))))\<rparr>"
    if "r \<in> set base" for r
  proof -
    from that assms(2) obtain g w h where
      "month r \<in> set months" "GHI r = Fin g" "0 \<le> g" "WindSpeed r = Fin w" "0 \<le> w"
      "RelHum r = Fin h" "0 \<le> h" "h \<le> 100"
      by blast
    with assms(1) show ?thesis
      by (intro morph_row_identity [where g = g and w = w and h = h]) auto
  qed
  have ok: "\<not> (\<exists>r \<in> set (map (morph_row D) base). \<not> assemblable yr (DateTime r))"
    using assms(2) by (auto simp: morph_row_sel(7))
  have "map (to_sam_row yr) (map (morph_row D) base) =
        map (\<lambda>r. \<lparr>DateTime = restamp yr (DateTime r),
                           GHI = GHI r,
                           DNI = fmul (GHI r) (fillna (Fin 0) (clip (Fin 0) (Fin 1)
                                   (fdiv (DNI r) (fadd (GHI r) eps)))),
                           DHI = fmul (GHI r) (clip (Fin 0) (Fin 1) (fsub (Fin 1)
                                   (fillna (Fin 0) (clip (Fin 0) (Fin 1)
                                     (fdiv (DNI r) (fadd (GHI r) eps)))))),
                           TempC = TempC r, WindSpeed = WindSpeed r, RelHum = RelHum r\<rparr>) base"
    by (simp add: to_sam_row_def row)
  with ok show ?thesis
    unfolding apply_morph_def Let_def by simp
qed

theorem identity_deltas_keep_totals_witness:
  "list_all (\<lambda>m. month_map (k_rsds identity_deltas) m = Fin 1
        \<and> month_map (d_tas identity_deltas) m = Fin 0
        \<and> month_map (k_wspd identity_deltas) m = Fin 1
        \<and> month_map (d_hurs identity_deltas) m = Fin 0) months
   \<and> month ref_hour \<in> set months \<and> assemblable 2030 (DateTime ref_hour)
   \<and> GHI ref_hour = Fin 500 \<and> WindSpeed ref_hour = Fin 3 \<and> RelHum ref_hour = Fin 70
   \<and> apply_morph identity_deltas 2030 [ref_hour] =
     Inr [\<lparr>DateTime = \<lparr>dt_year = 2030, dt_month = 1, dt_day = 1, dt_hour = 12, dt_subhour = 0\<rparr>,
           GHI = Fin 500, DNI = Fin (500 * (300 / (500 + 1 / 10^6))),
           DHI = Fin (500 * (1 - 300 / (500 + 1 / 10^6))),
           TempC = Fin 25, WindSpeed = Fin 3, RelHum = Fin 70\<rparr>]"
proof -
  have a: "\<forall>m \<in> set months. month_map (k_rsds identity_deltas) m = Fin 1
        \<and> month_map (d_tas identity_deltas) m = Fin 0
        \<and> month_map (k_wspd identity_deltas) m = Fin 1
        \<and> month_map (d_hurs identity_deltas) m = Fin 0"
    by (simp add: identity_deltas_def const_series_def months_simp month_map_def)
  have b: "\<forall>r \<in> set [ref_hour]. month r \<in> set months \<and> assemblable 2030 (DateTime r)
             \<and> (\<exists>g\<ge>0. GHI r = Fin g) \<and> (\<exists>w\<ge>0. WindSpeed r = Fin w)
             \<and> (\<exists>h. RelHum r = Fin h \<and> 0 \<le> h \<and> h \<le> 100)"
    by (simp add: ref_hour_def months_simp assemblable_def days_in_month_def)
  have c: "GHI ref_hour = Fin 500 \<and> WindSpeed ref_hour = Fin 3 \<and> RelHum ref_hour = Fin 70"
    by (simp add: ref_hour_def)
  have "apply_morph identity_deltas 2030 [ref_hour] =
     Inr [\<lparr>DateTime = \<lparr>dt_year = 2030, dt_month = 1, dt_day = 1, dt_hour = 12, dt_subhour = 0\<rparr>,
           GHI = Fin 500, DNI = Fin (500 * (300 / (500 + 1 / 10^6))),
           DHI = Fin (500 * (1 - 300 / (500 + 1 / 10^6))),
           TempC = Fin 25, WindSpeed = Fin 3, RelHum = Fin 70\<rparr>]"
    using identity_deltas_keep_totals [OF a b]
    by (simp add: ref_hour_def restamp_def eps_def fillna_def clip_def clip_lower_def
        clip_upper_def is_nan_def fsub_def)
  with a b c show ?thesis
    by (simp add: list_all_iff)
qed

section \<open>Clamping\<close>

text \<open>
  C7, as claimed: in every morphed record the global irradiance and the wind speed are
  at least 0 and the relative humidity is within [0, 100]. They are not where the
  value is NaN, which \<open>clip\<close> leaves as it is: with a humidity projection whose
  January mean is NaN (the monthly means of the loaders are never checked) the
  relative humidity of the example hour is NaN, and with a radiation climatology of 0
  in January the global irradiance of a night hour (0 times infinity) is NaN.
\<close>

theorem nan_passes_the_clamps:
  "(case monthly_deltas clim_ok (fut_ok(''hurs'' \<mapsto> january_nan)) of
      Inl e \<Rightarrow> False
    | Inr D \<Rightarrow> RelHum (morph_row D ref_hour) = NaN
               \<and> \<not> fle (Fin 0) (RelHum (morph_row D ref_hour))
               \<and> \<not> fle (RelHum (morph_row D ref_hour)) (Fin 100))
   \<and> (case monthly_deltas (clim_ok(''rsds'' \<mapsto> january_zero)) fut_ok of
      Inl e \<Rightarrow> False
    | Inr D \<Rightarrow> GHI (morph_row D (ref_hour\<lparr>GHI := Fin 0, DNI := Fin 0, DHI := Fin 0\<rparr>)) = NaN
               \<and> \<not> fle (Fin 0) (GHI (morph_row D (ref_hour\<lparr>GHI := Fin 0, DNI := Fin 0,
                                                              DHI := Fin 0\<rparr>))))"
  by (simp add: eval_series clim_ok_def fut_ok_def january_zero_def january_nan_def
      morph_row_def Let_def ref_hour_def clip_lower_def clip_def clip_upper_def)

text \<open>
  C7, amended. In every morphed record the global irradiance and the wind speed are
  never below 0 and the relative humidity is never below 0 nor above 100; whenever
  the value is a number (not NaN) the global irradiance and the wind speed are at
  least 0 and the relative humidity is a finite number within [0, 100]. The
  temperature is the reference temperature plus the offset of the record's month,
  with no clamping.
\<close>

theorem morphed_values_clamped:
  "\<not> flt (GHI (morph_row D r)) (Fin 0)
   \<and> (\<not> is_nan (GHI (morph_row D r)) \<longrightarrow> fle (Fin 0) (GHI (morph_row D r)))
   \<and> \<not> flt (WindSpeed (morph_row D r)) (Fin 0)
   \<and> (\<not> is_nan (WindSpeed (morph_row D r)) \<longrightarrow> fle (Fin 0) (WindSpeed (morph_row D r)))
   \<and> \<not> flt (RelHum (morph_row D r)) (Fin 0) \<and> \<not> flt (Fin 100) (RelHum (morph_row D r))
   \<and> (\<not> is_nan (RelHum (morph_row D r)) \<longrightarrow>
        (\<exists>h. RelHum (morph_row D r) = Fin h \<and> 0 \<le> h \<and> h \<le> 100))
   \<and> TempC (morph_row D r) = fadd (TempC r) (month_map (d_tas D) (month r))"
proof -
  have rh: "RelHum (morph_row D r) = NaN \<or> (\<exists>h. RelHum (morph_row D r) = Fin h \<and> 0 \<le> h \<and> h \<le> 100)"
    unfolding morph_row_sel(6) by (rule clip_percent_cases)
  then have "\<not> flt (RelHum (morph_row D r)) (Fin 0) \<and> \<not> flt (Fin 100) (RelHum (morph_row D r))
     \<and> (\<not> is_nan (RelHum (morph_row D r)) \<longrightarrow>
        (\<exists>h. RelHum (morph_row D r) = Fin h \<and> 0 \<le> h \<and> h \<le> 100))"
    by (auto simp: is_nan_def)
  then show ?thesis
    by (simp add: morph_row_sel(1,4,5) clip_lower_zero_not_negative clip_lower_zero_number)
qed

theorem morphed_values_clamped_witness:
  "\<not> is_nan (GHI (morph_row january_deltas ref_hour))
   \<and> fle (Fin 0) (GHI (morph_row january_deltas ref_hour))
   \<and> \<not> is_nan (WindSpeed (morph_row january_deltas ref_hour))
   \<and> fle (Fin 0) (WindSpeed (morph_row january_deltas ref_hour))
   \<and> \<not> is_nan (RelHum (morph_row january_deltas ref_hour))
   \<and> (\<exists>h. RelHum (morph_row january_deltas ref_hour) = Fin h \<and> 0 \<le> h \<and> h \<le> 100)
   \<and> TempC (morph_row january_deltas ref_hour) = Fin 25"
proof -
  have n: "\<not> is_nan (GHI (morph_row january_deltas ref_hour))"
    "\<not> is_nan (WindSpeed (morph_row january_deltas ref_hour))"
    "\<not> is_nan (RelHum (morph_row january_deltas ref_hour))"
    by (simp_all add: morph_row_sel january_deltas_def identity_deltas_def const_series_def
        months_simp ref_hour_def month_map_def clip_lower_def clip_def clip_upper_def is_nan_def)
  have t: "fadd (TempC ref_hour) (month_map (d_tas january_deltas) (month ref_hour)) = Fin 25"
    by (simp add: january_deltas_def identity_deltas_def const_series_def
        months_simp ref_hour_def month_map_def)
  from morphed_values_clamped [of january_deltas ref_hour] n t show ?thesis
    by simp
qed

section \<open>Scenario resolution at the cutoff\<close>

lemma load_future_vars_cong:
  assumes "\<forall>v \<in> set vs. load_nex_one_year_monthly E v yr sn = load_nex_one_year_monthly E' v yr sn"
  shows "load_future_vars E sn yr vs fut = load_future_vars E' sn yr vs fut"
  using assms by (induction vs arbitrary: fut) (auto split: sum.splits)

lemma load_future_vars_ok:
  assumes "\<forall>v \<in> set vs. load_nex_one_year_monthly E v yr sn = Inr (f v)"
  shows "load_future_vars E sn yr vs fut = Inr (\<lambda>v. if v \<in> set vs then Some (f v) else fut v)"
  using assms
proof (induction vs arbitrary: fut)
  case Nil
  then show ?case by simp
next
  case (Cons a vs)
  then show ?case by (auto simp: fun_eq_iff)
qed

lemma run_target_label:
  "r_ssp (run_target E ssp yr) = result_ssp ssp yr \<and> r_ano (run_target E ssp yr) = yr
   \<and> r_log (run_target E ssp yr) = (result_ssp ssp yr, yr)"
proof (cases "bind_err (morph_one_year E ssp yr) (\<lambda>M.
             bind_err (validate_sam_csv (to_csv (m_rows M))) (\<lambda>_. Inr M))")
  case (Inl e)
  then show ?thesis by (simp add: run_target_def)
next
  case (Inr M)
  then show ?thesis
    by (cases "run_sam_from_csv E (to_csv (m_rows M))") (simp_all add: run_target_def)
qed

lemma set_map_filter_iff:
  "r \<in> set (List.map_filter g xs) \<longleftrightarrow> (\<exists>x \<in> set xs. g x = Some r)"
  by (induction xs) (auto split: option.splits)

lemma set_main:
  "r \<in> set (main E) \<longleftrightarrow>
     (\<exists>ssp \<in> set SCENARIOS. \<exists>yr \<in> set YEARS.
        \<not> (yr < 2015 \<and> ssp \<noteq> hd SCENARIOS) \<and> r = run_target E ssp yr)"
proof -
  have "r \<in> set (main E) \<longleftrightarrow>
     (\<exists>ssp \<in> set SCENARIOS. \<exists>yr \<in> set YEARS.
        (if yr < 2015 \<and> ssp \<noteq> hd SCENARIOS then None else Some (run_target E ssp yr)) = Some r)"
    unfolding main_def by (simp add: set_map_filter_iff)
  also have "\<dots> \<longleftrightarrow> (\<exists>ssp \<in> set SCENARIOS. \<exists>yr \<in> set YEARS.
        \<not> (yr < 2015 \<and> ssp \<noteq> hd SCENARIOS) \<and> r = run_target E ssp yr)"
    by (intro bex_cong refl) auto
  finally show ?thesis .
qed

lemma morph_example_ok:
  "\<exists>M. morph_one_year (example_env leap_csv (Inr (const_series (Fin 70)))
                         (Inr (const_series (Fin 72)))) ssp yr = Inr M"
proof -
  obtain D where D: "monthly_deltas clim_ok fut_ok = Inr D"
    by (simp add: eval_series clim_ok_def fut_ok_def)
  show ?thesis
    unfolding morph_one_year_def
    by (simp add: read_leap_csv clims_with_hurs future_with_hurs D bind_err_def)
       (simp add: apply_morph_def assemblable_def days_in_month_def morph_row_sel(7) ref_hour_def)
qed

text \<open>
  C6. For every target year and nominal scenario, with "historical" before 2015 and
  the nominal scenario from 2015 on as the resolved scenario: \<open>load_future_monthly\<close>
  consults the projection loader under the resolved scenario only (its result
  depends on no other lookup, and is the dict of what the loader returns under it);
  the directory and file name of the morphed CSV that \<open>morph_one_year\<close> writes carry
  the resolved scenario; and the result of a target and the name of its log carry it
  too, for every entry that \<open>main\<close> collects. The resolutions never differ.
\<close>

theorem scenario_resolution:
  "((\<forall>v \<in> set VARS. load_nex_one_year_monthly E v yr (if yr < 2015 then ''historical'' else ssp)
                     = load_nex_one_year_monthly E' v yr (if yr < 2015 then ''historical'' else ssp))
      \<longrightarrow> load_future_monthly E ssp yr = load_future_monthly E' ssp yr)
   \<and> ((\<forall>v \<in> set VARS. load_nex_one_year_monthly E v yr (if yr < 2015 then ''historical'' else ssp)
                     = Inr (f v))
      \<longrightarrow> load_future_monthly E ssp yr = Inr (\<lambda>v. if v \<in> set VARS then Some (f v) else None))
   \<and> (morph_one_year E ssp yr = Inr M
      \<longrightarrow> m_subdir M = (if yr < 2015 then ''historical'' else ssp) \<and> m_year M = yr)
   \<and> r_ssp (run_target E ssp yr) = (if yr < 2015 then ''historical'' else ssp)
   \<and> r_log (run_target E ssp yr) = (if yr < 2015 then ''historical'' else ssp, yr)
   \<and> (\<forall>r \<in> set (main E). (r_ano r < 2015 \<longrightarrow> r_ssp r = ''historical'' \<and> r_log r = (''historical'', r_ano r))
                        \<and> (r_ano r \<ge> 2015 \<longrightarrow> r_ssp r \<in> set SCENARIOS \<and> r_log r = (r_ssp r, r_ano r)))
   \<and> ssp_name ssp yr = (if yr < 2015 then ''historical'' else ssp)
   \<and> out_subdir ssp yr = ssp_name ssp yr \<and> result_ssp ssp yr = ssp_name ssp yr"
proof -
  let ?sn = "if yr < 2015 then ''historical'' else ssp"
  have sn: "ssp_name ssp yr = ?sn" "out_subdir ssp yr = ?sn" "result_ssp ssp yr = ?sn"
    by (simp_all add: ssp_name_def out_subdir_def result_ssp_def)
  have sn': "out_subdir ssp yr = ssp_name ssp yr" "result_ssp ssp yr = ssp_name ssp yr"
    by (simp_all add: ssp_name_def out_subdir_def result_ssp_def)
  have a: "(\<forall>v \<in> set VARS. load_nex_one_year_monthly E v yr ?sn
                = load_nex_one_year_monthly E' v yr ?sn)
           \<longrightarrow> load_future_monthly E ssp yr = load_future_monthly E' ssp yr"
    unfolding load_future_monthly_def sn by (rule impI) (rule load_future_vars_cong)
  have b: "(\<forall>v \<in> set VARS. load_nex_one_year_monthly E v yr ?sn = Inr (f v))
           \<longrightarrow> load_future_monthly E ssp yr
                 = Inr (\<lambda>v. if v \<in> set VARS then Some (f v) else None)"
    unfolding load_future_monthly_def sn by (rule impI) (rule load_future_vars_ok)
  have c: "morph_one_year E ssp yr = Inr M \<longrightarrow> m_subdir M = ?sn \<and> m_year M = yr"
    using sn(2)
    by (auto simp: morph_one_year_def bind_err_def split: sum.splits prod.splits)
  have d: "r_ssp (run_target E ssp yr) = ?sn" "r_log (run_target E ssp yr) = (?sn, yr)"
    using run_target_label [of E ssp yr] sn(3) by simp_all
  have e: "\<forall>r \<in> set (main E).
             (r_ano r < 2015 \<longrightarrow> r_ssp r = ''historical'' \<and> r_log r = (''historical'', r_ano r))
           \<and> (r_ano r \<ge> 2015 \<longrightarrow> r_ssp r \<in> set SCENARIOS \<and> r_log r = (r_ssp r, r_ano r))"
  proof
    fix r
    assume "r \<in> set (main E)"
    then obtain s y where "s \<in> set SCENARIOS" "r = run_target E s y"
      unfolding set_main by blast
    then show "(r_ano r < 2015 \<longrightarrow> r_ssp r = ''historical'' \<and> r_log r = (''historical'', r_ano r))
           \<and> (r_ano r \<ge> 2015 \<longrightarrow> r_ssp r \<in> set SCENARIOS \<and> r_log r = (r_ssp r, r_ano r))"
      using run_target_label [of E s y] by (simp add: result_ssp_def)
  qed
  show ?thesis
    by (intro conjI a b c d e sn(1) sn')
qed

theorem scenario_resolution_witness:
  "list_all (\<lambda>v. load_nex_one_year_monthly
                    (example_env leap_csv (Inr (const_series (Fin 70))) (Inr (const_series (Fin 72))))
                    v 2014 ''historical'' = Inr (the (fut_ok v))) VARS
   \<and> load_future_monthly
        (example_env leap_csv (Inr (const_series (Fin 70))) (Inr (const_series (Fin 72))))
        ''ssp585'' 2014
      = Inr (\<lambda>v. if v \<in> set VARS then Some (the (fut_ok v)) else None)
   \<and> (\<exists>M. morph_one_year
             (example_env leap_csv (Inr (const_series (Fin 70))) (Inr (const_series (Fin 72))))
             ''ssp585'' 2014 = Inr M
          \<and> m_subdir M = ''historical'' \<and> m_year M = 2014)
   \<and> (\<exists>M. morph_one_year
             (example_env leap_csv (Inr (const_series (Fin 70))) (Inr (const_series (Fin 72))))
             ''ssp585'' 2015 = Inr M
          \<and> m_subdir M = ''ssp585'' \<and> m_year M = 2015)
   \<and> r_ssp (run_target
        (example_env leap_csv (Inr (const_series (Fin 70))) (Inr (const_series (Fin 72))))
        ''ssp585'' 2014) = ''historical''
   \<and> (\<exists>r. r \<in> set (main (example_env leap_csv (Inr (const_series (Fin 70)))
                             (Inr (const_series (Fin 72)))))
          \<and> r_ano r = 2014 \<and> r_ssp r = ''historical'')
   \<and> (\<exists>r. r \<in> set (main (example_env leap_csv (Inr (const_series (Fin 70)))
                             (Inr (const_series (Fin 72)))))
          \<and> r_ano r = 2030 \<and> r_ssp r = ''ssp585'' \<and> r_log r = (''ssp585'', 2030))"
proof -
  let ?E = "example_env leap_csv (Inr (const_series (Fin 70))) (Inr (const_series (Fin 72)))"
  have h: "\<forall>v \<in> set VARS. load_nex_one_year_monthly ?E v 2014
              (if (2014::int) < 2015 then ''historical'' else ''ssp585'') = Inr (the (fut_ok v))"
    by (simp add: VARS_def example_env_sel fut_ok_def)
  then have 1: "list_all (\<lambda>v. load_nex_one_year_monthly ?E v 2014 ''historical''
                                 = Inr (the (fut_ok v))) VARS"
    by (simp add: list_all_iff)
  note sr14 = scenario_resolution [where E = ?E and yr = 2014 and ssp = "''ssp585''"
      and f = "\<lambda>v. the (fut_ok v)"]
  from sr14 [THEN conjunct2, THEN conjunct1] h have 2: "load_future_monthly ?E ''ssp585'' 2014
             = Inr (\<lambda>v. if v \<in> set VARS then Some (the (fut_ok v)) else None)"
    by (rule mp)
  obtain M1 where M1: "morph_one_year ?E ''ssp585'' 2014 = Inr M1"
    using morph_example_ok by blast
  from scenario_resolution [where E = ?E and yr = 2014 and ssp = "''ssp585''" and M = M1,
      THEN conjunct2, THEN conjunct2, THEN conjunct1, THEN mp, OF M1]
  have 3: "m_subdir M1 = ''historical'' \<and> m_year M1 = 2014" by simp
  obtain M2 where M2: "morph_one_year ?E ''ssp585'' 2015 = Inr M2"
    using morph_example_ok by blast
  from scenario_resolution [where E = ?E and yr = 2015 and ssp = "''ssp585''" and M = M2,
      THEN conjunct2, THEN conjunct2, THEN conjunct1, THEN mp, OF M2]
  have 4: "m_subdir M2 = ''ssp585'' \<and> m_year M2 = 2015" by simp
  from sr14 [THEN conjunct2, THEN conjunct2, THEN conjunct2, THEN conjunct1]
  have 5: "r_ssp (run_target ?E ''ssp585'' 2014) = ''historical''" by simp
  note e = sr14 [THEN conjunct2, THEN conjunct2, THEN conjunct2, THEN conjunct2, THEN conjunct2, THEN conjunct1]
  have sc: "''ssp245'' \<in> set SCENARIOS" "''ssp585'' \<in> set SCENARIOS" "hd SCENARIOS = ''ssp245''"
    by (simp_all add: SCENARIOS_def)
  have ys: "(2014::int) \<in> set YEARS" "(2030::int) \<in> set YEARS"
    by (simp_all add: YEARS_def)
  have m1: "run_target ?E ''ssp245'' 2014 \<in> set (main ?E)"
    unfolding set_main using sc(1,3) ys(1) by (intro bexI [of _ "''ssp245''"] bexI [of _ 2014]) simp_all
  have m2: "run_target ?E ''ssp585'' 2030 \<in> set (main ?E)"
    unfolding set_main using sc(2) ys(2) by (intro bexI [of _ "''ssp585''"] bexI [of _ 2030]) simp_all
  have a1: "r_ano (run_target ?E ''ssp245'' 2014) = 2014"
    "r_ano (run_target ?E ''ssp585'' 2030) = 2030"
    using run_target_label by simp_all
  from bspec [OF e m1] a1(1)
  have 6: "r_ssp (run_target ?E ''ssp245'' 2014) = ''historical''" by simp
  from bspec [OF e m2] a1(2)
  have 7: "r_log (run_target ?E ''ssp585'' 2030) = (r_ssp (run_target ?E ''ssp585'' 2030), 2030)"
    by simp
  from scenario_resolution [where E = ?E and yr = 2030 and ssp = "''ssp585''",
      THEN conjunct2, THEN conjunct2, THEN conjunct2, THEN conjunct1]
  have 8: "r_ssp (run_target ?E ''ssp585'' 2030) = ''ssp585''" by simp
  have A: "\<exists>M. morph_one_year ?E ''ssp585'' 2014 = Inr M
          \<and> m_subdir M = ''historical'' \<and> m_year M = 2014"
    using M1 3 by (intro exI [of _ M1]) simp
  have B: "\<exists>M. morph_one_year ?E ''ssp585'' 2015 = Inr M
          \<and> m_subdir M = ''ssp585'' \<and> m_year M = 2015"
    using M2 4 by (intro exI [of _ M2]) simp
  have C: "\<exists>r. r \<in> set (main ?E) \<and> r_ano r = 2014 \<and> r_ssp r = ''historical''"
    using m1 a1(1) 6 by (intro exI [of _ "run_target ?E ''ssp245'' 2014"]) simp
  have D: "\<exists>r. r \<in> set (main ?E) \<and> r_ano r = 2030 \<and> r_ssp r = ''ssp585''
             \<and> r_log r = (''ssp585'', 2030)"
    using m2 a1(2) 7 8 by (intro exI [of _ "run_target ?E ''ssp585'' 2030"]) simp
  show ?thesis
    by (intro conjI 1 2 A B 5 C D)
qed

lemma morph_one_year_subdir:
  "morph_one_year E ssp yr = Inr M \<Longrightarrow> m_subdir M = out_subdir ssp yr \<and> m_year M = yr"
  by (auto simp: morph_one_year_def bind_err_def split: sum.splits prod.splits)

section \<open>The monthly adjustments\<close>

text \<open>
  C4, as claimed: a climatology value of exactly 0 for a multiplicative variable makes
  the computation of the adjustment fail. It does not: with a radiation climatology
  of 0 in January and a projection of 210 the adjustments are computed, and the
  January radiation factor is plus infinity.
\<close>

theorem zero_climatology_gives_infinite_factor:
  "(case monthly_deltas (clim_ok(''rsds'' \<mapsto> january_zero)) fut_ok of
      Inl e \<Rightarrow> False
    | Inr D \<Rightarrow> month_map (k_rsds D) 1 = PInf)"
  by (simp add: eval_series clim_ok_def fut_ok_def january_zero_def)

text \<open>
  C4, amended. When every climatology and every projection is present with 12 values,
  the monthly adjustments are computed without error whatever the values are: the
  radiation and wind factors of each month are the floating-point quotients of the
  projection by the climatology, and where the climatology of a month is exactly 0 the
  factor of that month is not a finite number (it is plus or minus infinity, or NaN).
\<close>

theorem zero_climatology_not_an_error:
  assumes "\<forall>v \<in> set VARS. (\<exists>s. clim v = Some s \<and> length s = 12)
                         \<and> (\<exists>s. fut v = Some s \<and> length s = 12)"
  shows "\<exists>D. monthly_deltas clim fut = Inr D
           \<and> (\<forall>i<12. month_map (k_rsds D) (Suc i)
                        = fdiv (snd (the (fut ''rsds'') ! i)) (snd (the (clim ''rsds'') ! i))
                    \<and> month_map (k_wspd D) (Suc i)
                        = fdiv (snd (the (fut ''sfcWind'') ! i)) (snd (the (clim ''sfcWind'') ! i))
                    \<and> (snd (the (clim ''rsds'') ! i) = Fin 0
                         \<longrightarrow> \<not> is_fin (month_map (k_rsds D) (Suc i)))
                    \<and> (snd (the (clim ''sfcWind'') ! i) = Fin 0
                         \<longrightarrow> \<not> is_fin (month_map (k_wspd D) (Suc i))))"
proof -
  from assms obtain cr ct cw ch fr ft fw fh where
    c: "clim ''rsds'' = Some cr" "clim ''tas'' = Some ct" "clim ''sfcWind'' = Some cw"
       "clim ''hurs'' = Some ch"
    and f: "fut ''rsds'' = Some fr" "fut ''tas'' = Some ft" "fut ''sfcWind'' = Some fw"
       "fut ''hurs'' = Some fh"
    and l: "length cr = 12" "length ct = 12" "length cw = 12" "length ch = 12"
       "length fr = 12" "length ft = 12" "length fw = 12" "length fh = 12"
    unfolding VARS_def by auto
  let ?D = "\<lparr>k_rsds = series_op fdiv (zip months (map snd fr)) (zip months (map snd cr)),
            d_tas = series_op fsub (zip months (map snd ft)) (zip months (map snd ct)),
            k_wspd = series_op fdiv (zip months (map snd fw)) (zip months (map snd cw)),
            d_hurs = series_op fsub (zip months (map snd fh)) (zip months (map snd ch))\<rparr>"
  have D: "monthly_deltas clim fut = Inr ?D"
    using c f l
    by (simp add: monthly_deltas_def get_series_def as_monthly_series_seq bind_err_def
        hurs_series_total)
  have k: "month_map (k_rsds ?D) (Suc i) = fdiv (snd (fr ! i)) (snd (cr ! i))"
       "month_map (k_wspd ?D) (Suc i) = fdiv (snd (fw ! i)) (snd (cw ! i))" if "i < 12" for i
    using that l by (simp_all add: month_map_series_op)
  have "\<not> is_fin (month_map (k_rsds ?D) (Suc i))" if "i < 12" "snd (cr ! i) = Fin 0" for i
    using that k(1) [of i] by (simp add: fdiv_by_zero_not_finite)
  moreover
  have "\<not> is_fin (month_map (k_wspd ?D) (Suc i))" if "i < 12" "snd (cw ! i) = Fin 0" for i
    using that k(2) [of i] by (simp add: fdiv_by_zero_not_finite)
  ultimately show ?thesis
    using D k c f by (intro exI [of _ ?D]) simp
qed

theorem zero_climatology_not_an_error_witness:
  "list_all (\<lambda>v. (\<exists>s. (clim_ok(''rsds'' \<mapsto> january_zero)) v = Some s \<and> length s = 12)
                  \<and> (\<exists>s. fut_ok v = Some s \<and> length s = 12)) VARS
   \<and> snd (the ((clim_ok(''rsds'' \<mapsto> january_zero)) ''rsds'') ! 0) = Fin 0
   \<and> (\<exists>D. monthly_deltas (clim_ok(''rsds'' \<mapsto> january_zero)) fut_ok = Inr D
          \<and> \<not> is_fin (month_map (k_rsds D) (Suc 0)))"
proof -
  have a: "\<forall>v \<in> set VARS. (\<exists>s. (clim_ok(''rsds'' \<mapsto> january_zero)) v = Some s \<and> length s = 12)
                         \<and> (\<exists>s. fut_ok v = Some s \<and> length s = 12)"
    by (simp add: VARS_def clim_ok_def fut_ok_def january_zero_def const_series_def months_def)
  have z: "snd (the ((clim_ok(''rsds'' \<mapsto> january_zero)) ''rsds'') ! 0) = Fin 0"
    by (simp add: january_zero_def)
  from zero_climatology_not_an_error [OF a] z
  have "\<exists>D. monthly_deltas (clim_ok(''rsds'' \<mapsto> january_zero)) fut_ok = Inr D
          \<and> \<not> is_fin (month_map (k_rsds D) (Suc 0))"
    by fastforce
  with a z show ?thesis
    by (simp add: list_all_iff)
qed

text \<open>
  C5. The claim: when the humidity projection or the humidity climatology is missing,
  the humidity offsets are zero for every month and the morph does not fail. The code:
  when the climatology fails to load and the projection is there, the morph of the
  target fails for want of \<open>clim.hurs\<close>; when the projection fails to load and the
  climatology (70 percent) is there, no warning about humidity is printed and the
  offsets are 0 - 70, so that every relative humidity of 70 is morphed to 0.
\<close>

theorem missing_humidity_not_zero_delta:
  "morph_one_year (example_env leap_csv (Inl (FileNotFoundError ''hurs''))
                     (Inr (const_series (Fin 72)))) ''ssp245'' 2030
     = Inl (ValueError (SeriesAbsent ''clim.hurs''))
   \<and> (case morph_one_year (example_env leap_csv (Inr (const_series (Fin 70)))
                              (Inl (FileNotFoundError ''hurs''))) ''ssp245'' 2030 of
        Inl e \<Rightarrow> False
      | Inr M \<Rightarrow> m_printed M = [UsingEra5Wind] \<and> map RelHum (m_rows M) = replicate 8760 (Fin 0))
   \<and> (case monthly_deltas clim_ok (fut_ok(''hurs'' := None)) of
        Inl e \<Rightarrow> False
      | Inr D \<Rightarrow> d_hurs D = const_series (Fin (- 70)))"
proof -
  have a: "morph_one_year (example_env leap_csv (Inl (FileNotFoundError ''hurs''))
                     (Inr (const_series (Fin 72)))) ''ssp245'' 2030
     = Inl (ValueError (SeriesAbsent ''clim.hurs''))"
    unfolding morph_one_year_def
    by (simp add: read_leap_csv clims_without_hurs future_with_hurs)
       (simp add: eval_series clim_ok_def fut_ok_def)
  have c: "(case monthly_deltas clim_ok (fut_ok(''hurs'' := None)) of
        Inl e \<Rightarrow> False
      | Inr D \<Rightarrow> d_hurs D = const_series (Fin (- 70)))"
    by (simp add: eval_series clim_ok_def fut_ok_def)
  then obtain D where D: "monthly_deltas clim_ok (fut_ok(''hurs'' := None)) = Inr D"
    "d_hurs D = const_series (Fin (- 70))"
    by (auto split: sum.splits)
  have b: "(case morph_one_year (example_env leap_csv (Inr (const_series (Fin 70)))
                              (Inl (FileNotFoundError ''hurs''))) ''ssp245'' 2030 of
        Inl e \<Rightarrow> False
      | Inr M \<Rightarrow> m_printed M = [UsingEra5Wind] \<and> map RelHum (m_rows M) = replicate 8760 (Fin 0))"
    unfolding morph_one_year_def
    by (simp add: read_leap_csv clims_with_hurs future_without_hurs D bind_err_def)
       (simp add: apply_morph_def assemblable_def days_in_month_def morph_row_sel ref_hour_def
          to_sam_row_def D const_series_def months_simp month_map_def clip_def clip_lower_def
          clip_upper_def)
  from a b c show ?thesis by blast
qed

section \<open>The series constructor\<close>




section \<open>The annual calendar\<close>



section \<open>The consolidated table\<close>

subsection \<open>Names of log files\<close>













subsection \<open>Rows of the logs\<close>







subsection \<open>The index of morphed CSVs\<close>











subsection \<open>Rows without a log\<close>











subsection \<open>The example directories\<close>








end
